theory Spec2Isabelle
  imports Complex_Main "HOL-Library.AList"
begin

section \<open>Python values, exceptions and option dictionaries\<close>

text \<open>
  The constructors of \<^verbatim>\<open>Client\<close> and \<^verbatim>\<open>ConnectionState\<close> take their configuration as
  a keyword dictionary (\<^verbatim>\<open>**options: Any\<close>), so the values are dynamically typed. A float
  is kept as its sign-relevant content: a finite number (as a real), an infinity or NaN;
  only comparisons with zero are made on it.
\<close>

datatype pyfloat = Finite real | PosInf | NegInf | NaN

datatype pyval =
    PNone
  | PBool bool
  | PInt int
  | PFloat pyfloat
  | PStr string
  | PTuple "pyval list"
  | PDict "(string \<times> pyval) list"
  | PObj nat

datatype exn =
    TypeError
  | ValueError string
  | AttributeError
  | InvalidStateError
  | ReconnectWebSocket string bool
  | OSError int
  | HTTPException
  | GatewayNotFound
  | ConnectionClosed int
  | ClientError
  | TimeoutError
  | OtherException string
  | BaseExc string

text \<open>\<^verbatim>\<open>isinstance(exc, Exception)\<close>: everything but a bare \<^verbatim>\<open>BaseException\<close> such as
  \<^verbatim>\<open>KeyboardInterrupt\<close>.\<close>

fun is_Exception :: "exn \<Rightarrow> bool" where
  "is_Exception (BaseExc _) = False"
| "is_Exception _ = True"

type_synonym options = "string \<rightharpoonup> pyval"

text \<open>\<^verbatim>\<open>options.get(key, default)\<close> and \<^verbatim>\<open>options.pop(key, default)\<close>.\<close>

definition opt_get :: "options \<Rightarrow> string \<Rightarrow> pyval \<Rightarrow> pyval" where
  "opt_get opts k d = (case opts k of None \<Rightarrow> d | Some v \<Rightarrow> v)"

definition opt_pop :: "options \<Rightarrow> string \<Rightarrow> pyval \<Rightarrow> pyval \<times> options" where
  "opt_pop opts k d = (opt_get opts k d, opts(k := None))"

text \<open>\<^verbatim>\<open>v <= 0\<close> and \<^verbatim>\<open>v < 0\<close> on a dynamically typed value: a \<^verbatim>\<open>bool\<close> is an \<^verbatim>\<open>int\<close>,
  NaN compares false, and a value that is no number raises \<^verbatim>\<open>TypeError\<close>.\<close>

fun py_le0 :: "pyval \<Rightarrow> exn + bool" where
  "py_le0 (PInt i) = Inr (i \<le> 0)"
| "py_le0 (PBool b) = Inr (\<not> b)"
| "py_le0 (PFloat (Finite r)) = Inr (r \<le> 0)"
| "py_le0 (PFloat PosInf) = Inr False"
| "py_le0 (PFloat NegInf) = Inr True"
| "py_le0 (PFloat NaN) = Inr False"
| "py_le0 _ = Inl TypeError"

fun py_lt0 :: "pyval \<Rightarrow> exn + bool" where
  "py_lt0 (PInt i) = Inr (i < 0)"
| "py_lt0 (PBool b) = Inr False"
| "py_lt0 (PFloat (Finite r)) = Inr (r < 0)"
| "py_lt0 (PFloat PosInf) = Inr False"
| "py_lt0 (PFloat NegInf) = Inr True"
| "py_lt0 (PFloat NaN) = Inr False"
| "py_lt0 _ = Inl TypeError"

text \<open>\<^verbatim>\<open>v >= 0\<close>, the property the specification states of the timeout.\<close>

fun py_ge0 :: "pyval \<Rightarrow> bool" where
  "py_ge0 (PInt i) = (0 \<le> i)"
| "py_ge0 (PBool b) = True"
| "py_ge0 (PFloat (Finite r)) = (0 \<le> r)"
| "py_ge0 (PFloat PosInf) = True"
| "py_ge0 _ = False"

section \<open>ConnectionState construction (state.py)\<close>

text \<open>
  \<^verbatim>\<open>__init__\<close> mutates the object it is given, one attribute after the other, and may raise
  in the middle. The object is its attribute dictionary; the constructor returns the
  exception it raised, if any, together with the object as it stands at that moment.
\<close>

type_synonym obj = "string \<rightharpoonup> pyval"

text \<open>\<^verbatim>\<open>attr[6:].upper()\<close> on ASCII names.\<close>

definition upper_char :: "char \<Rightarrow> char" where
  "upper_char c = (let n = of_char c :: nat in
     if 97 \<le> n \<and> n \<le> 122 then char_of (n - 32) else c)"

definition upper :: "string \<Rightarrow> string" where
  "upper s = map upper_char s"

definition startswith :: "string \<Rightarrow> string \<Rightarrow> bool" where
  "startswith s p = (take (length p) s = p)"

text \<open>The loop over \<^verbatim>\<open>inspect.getmembers(self)\<close> that fills the parser table; a later
  member with the same key overwrites an earlier one.\<close>

fun build_parsers :: "(string \<times> pyval) list \<Rightarrow> (string \<times> pyval) list \<Rightarrow> (string \<times> pyval) list" where
  "build_parsers [] parsers = parsers"
| "build_parsers ((attr, func) # ms) parsers =
     (if startswith attr ''parse_''
      then build_parsers ms (AList.update (upper (drop 6 attr)) func parsers)
      else build_parsers ms parsers)"

text \<open>Lines 82 to 84: the message cap.\<close>

definition init_max_messages :: "options \<Rightarrow> obj \<Rightarrow> exn option \<times> obj" where
  "init_max_messages opts self =
     (let m = opt_get opts ''max_messages'' (PInt 1000);
          self1 = self(''max_messages'' \<mapsto> m)
      in if m \<noteq> PNone then
           (case py_le0 m of
              Inl e \<Rightarrow> (Some e, self1)
            | Inr True \<Rightarrow> (None, self1(''max_messages'' \<mapsto> PInt 1000))
            | Inr False \<Rightarrow> (None, self1))
         else (None, self1))"

text \<open>Lines 86 to 93: the plain assignments between the two checks.\<close>

definition init_fields :: "pyval \<Rightarrow> pyval \<Rightarrow> pyval \<Rightarrow> options \<Rightarrow> obj \<Rightarrow> obj" where
  "init_fields dispatch handlers hooks opts self =
     self(''dispatch'' \<mapsto> dispatch,
          ''handlers'' \<mapsto> handlers,
          ''hooks'' \<mapsto> hooks,
          ''shard_count'' \<mapsto> PNone,
          ''_ready_task'' \<mapsto> PNone,
          ''application_id'' \<mapsto> opt_get opts ''application_id'' PNone,
          ''heartbeat_timeout'' \<mapsto> opt_get opts ''heartbeat_timeout'' (PFloat (Finite 60)),
          ''guild_ready_timeout'' \<mapsto> opt_get opts ''guild_ready_timeout'' (PFloat (Finite 2)))"

text \<open>
  Lines 97 to 104: what follows the timeout check. The chunk-request table and the parser
  table are set up, and then \<^verbatim>\<open>self.clear()\<close> is called. The body of
  \<^verbatim>\<open>class ConnectionState\<close> defines \<^verbatim>\<open>__init__\<close> only and the class has no base, so the lookup
  of \<^verbatim>\<open>clear\<close> finds nothing and raises \<^verbatim>\<open>AttributeError\<close>; should the object have been handed
  in with an instance attribute of that name, that attribute is a data value of the attribute
  dictionary and calling it raises \<^verbatim>\<open>TypeError\<close>.
\<close>

definition call_clear :: "obj \<Rightarrow> exn option \<times> obj" where
  "call_clear self = (case self ''clear'' of
                        None \<Rightarrow> (Some AttributeError, self)
                      | Some v \<Rightarrow> (Some TypeError, self))"

definition init_tables :: "(string \<times> pyval) list \<Rightarrow> obj \<Rightarrow> exn option \<times> obj" where
  "init_tables members self =
     call_clear
       (self(''_chunk_requests'' \<mapsto> PDict [], ''parsers'' \<mapsto> PDict (build_parsers members [])))"

text \<open>
  The whole constructor. \<open>members\<close> is what \<^verbatim>\<open>inspect.getmembers(self)\<close> returns.
\<close>

definition ConnectionState_init ::
  "(string \<times> pyval) list \<Rightarrow> pyval \<Rightarrow> pyval \<Rightarrow> pyval \<Rightarrow> pyval \<Rightarrow> pyval \<Rightarrow> options \<Rightarrow> obj
     \<Rightarrow> exn option \<times> obj" where
  "ConnectionState_init members dispatch handlers hooks http loop opts self =
     (let self1 = self(''loop'' \<mapsto> loop, ''http'' \<mapsto> http) in
      case init_max_messages opts self1 of
        (Some e, self2) \<Rightarrow> (Some e, self2)
      | (None, self2) \<Rightarrow>
          (let self3 = init_fields dispatch handlers hooks opts self2 in
           case py_lt0 (the (self3 ''guild_ready_timeout'')) of
             Inl e \<Rightarrow> (Some e, self3)
           | Inr True \<Rightarrow> (Some (ValueError ''guild_ready_timeout cannot be negative''), self3)
           | Inr False \<Rightarrow> init_tables members self3))"

text \<open>
  The message cap is documented as \<^verbatim>\<open>Optional[int]\<close>. \<open>mm_ok\<close> holds of an option
  dictionary whose \<^verbatim>\<open>max_messages\<close> entry, if present, is \<^verbatim>\<open>None\<close> or a number, so that the
  comparison on line 83 does not raise \<^verbatim>\<open>TypeError\<close>.
\<close>

definition mm_ok :: "options \<Rightarrow> bool" where
  "mm_ok opts = (case opts ''max_messages'' of None \<Rightarrow> True
     | Some m \<Rightarrow> m = PNone \<or> (case py_le0 m of Inl _ \<Rightarrow> False | Inr _ \<Rightarrow> True))"

section \<open>Futures and the object store\<close>

text \<open>
  An \<^verbatim>\<open>asyncio.Future\<close> is a shared mutable object: the registry that resolves it and the
  caller that awaits it hold the same one. Futures live in a store, addressed by a number;
  \<^verbatim>\<open>loop.create_future()\<close> allocates the next address. \<^verbatim>\<open>set_result\<close> and
  \<^verbatim>\<open>set_exception\<close> raise \<^verbatim>\<open>InvalidStateError\<close> on a future that is not pending.
\<close>

datatype 'a fstate = Pending | Cancelled | Done 'a | Failed exn

type_synonym 'a futures = "nat \<rightharpoonup> 'a fstate"

definition fut_cancelled :: "'a futures \<Rightarrow> nat \<Rightarrow> bool" where
  "fut_cancelled fs f = (fs f = Some Cancelled)"

definition fut_done :: "'a futures \<Rightarrow> nat \<Rightarrow> bool" where
  "fut_done fs f = (fs f \<noteq> Some Pending)"

definition set_result :: "'a futures \<Rightarrow> nat \<Rightarrow> 'a \<Rightarrow> exn + 'a futures" where
  "set_result fs f v = (if fs f = Some Pending then Inr (fs(f \<mapsto> Done v)) else Inl InvalidStateError)"

definition set_exception :: "'a futures \<Rightarrow> nat \<Rightarrow> exn \<Rightarrow> exn + 'a futures" where
  "set_exception fs f e = (if fs f = Some Pending then Inr (fs(f \<mapsto> Failed e)) else Inl InvalidStateError)"

section \<open>ChunkRequest (state.py)\<close>

text \<open>
  The member buffer is a list object that \<^verbatim>\<open>add_members\<close> extends in place and that
  \<^verbatim>\<open>done\<close> hands to every waiter by reference, so list objects live in a store as well and
  a future of a chunk request holds the address of a list.
\<close>

record member =
  member_id :: int
  joined_at :: "int option"

record world =
  futs :: "nat futures"
  next_fut :: nat
  lists :: "nat \<rightharpoonup> member list"
  next_list :: nat
  guild_members :: "nat \<Rightarrow> (int \<rightharpoonup> member)"

record ChunkRequest =
  guild_id :: int
  resolver :: "int \<Rightarrow> nat option"
  cache :: bool
  nonce :: string
  buffer :: nat
  waiters :: "nat list"

definition create_future :: "world \<Rightarrow> nat \<times> world" where
  "create_future w = (next_fut w, w\<lparr>futs := (futs w)(next_fut w \<mapsto> Pending), next_fut := Suc (next_fut w)\<rparr>)"

text \<open>The constructor; \<open>rnd\<close> is the hex string that \<^verbatim>\<open>os.urandom(16).hex()\<close> yields.\<close>

definition ChunkRequest_init ::
  "int \<Rightarrow> (int \<Rightarrow> nat option) \<Rightarrow> bool \<Rightarrow> string \<Rightarrow> world \<Rightarrow> ChunkRequest \<times> world" where
  "ChunkRequest_init gid res c rnd w =
     (\<lparr>guild_id = gid, resolver = res, cache = c, nonce = rnd, buffer = next_list w, waiters = []\<rparr>,
      w\<lparr>lists := (lists w)(next_list w \<mapsto> []), next_list := Suc (next_list w)\<rparr>)"

text \<open>
  Modelled from the spec: \<^verbatim>\<open>Guild.get_member\<close> and \<^verbatim>\<open>Guild._add_member\<close> are defined in a
  module outside the source at hand. The specification describes the guild's "member cache
  keyed by id": a lookup by id and an insertion under the member's id.
\<close>

definition get_member :: "(int \<rightharpoonup> member) \<Rightarrow> int \<Rightarrow> member option" where
  "get_member g i = g i"

definition add_member :: "(int \<rightharpoonup> member) \<Rightarrow> member \<Rightarrow> (int \<rightharpoonup> member)" where
  "add_member g m = g(member_id m \<mapsto> m)"

text \<open>The loop of lines 37 to 40 over the members of one chunk.\<close>

fun merge_members :: "(int \<rightharpoonup> member) \<Rightarrow> member list \<Rightarrow> (int \<rightharpoonup> member)" where
  "merge_members g [] = g"
| "merge_members g (m # ms) =
     (case get_member g (member_id m) of
        None \<Rightarrow> merge_members (add_member g m) ms
      | Some existing \<Rightarrow>
          if joined_at existing = None then merge_members (add_member g m) ms
          else merge_members g ms)"

definition list_extend :: "world \<Rightarrow> nat \<Rightarrow> member list \<Rightarrow> world" where
  "list_extend w a ms = w\<lparr>lists := (lists w)(a \<mapsto> (case lists w a of None \<Rightarrow> [] | Some xs \<Rightarrow> xs) @ ms)\<rparr>"

definition add_members :: "ChunkRequest \<Rightarrow> member list \<Rightarrow> world \<Rightarrow> world" where
  "add_members cr ms w =
     (let w1 = list_extend w (buffer cr) ms in
      if cache cr then
        (case resolver cr (guild_id cr) of
           None \<Rightarrow> w1
         | Some g \<Rightarrow> w1\<lparr>guild_members := (guild_members w1)(g := merge_members (guild_members w1 g) ms)\<rparr>)
      else w1)"

definition get_future :: "ChunkRequest \<Rightarrow> world \<Rightarrow> nat \<times> ChunkRequest \<times> world" where
  "get_future cr w =
     (let (f, w1) = create_future w in (f, cr\<lparr>waiters := waiters cr @ [f]\<rparr>, w1))"

text \<open>
  \<^verbatim>\<open>wait\<close> registers a future the same way and suspends on it; when the caller resumes
  (with the result, a failure or a cancellation) the \<^verbatim>\<open>finally\<close> clause takes the first
  occurrence of the future out of the waiter list.
\<close>

definition wait_register :: "ChunkRequest \<Rightarrow> world \<Rightarrow> nat \<times> ChunkRequest \<times> world" where
  "wait_register cr w =
     (let (f, w1) = create_future w in (f, cr\<lparr>waiters := waiters cr @ [f]\<rparr>, w1))"

definition wait_resume :: "ChunkRequest \<Rightarrow> nat \<Rightarrow> ChunkRequest" where
  "wait_resume cr f = cr\<lparr>waiters := remove1 f (waiters cr)\<rparr>"

text \<open>\<^verbatim>\<open>done\<close>: every waiter that is not done yet is given the buffer object.\<close>

fun done_loop :: "nat list \<Rightarrow> nat \<Rightarrow> nat futures \<Rightarrow> exn + nat futures" where
  "done_loop [] b fs = Inr fs"
| "done_loop (f # rest) b fs =
     (if \<not> fut_done fs f then
        (case set_result fs f b of Inl e \<Rightarrow> Inl e | Inr fs1 \<Rightarrow> done_loop rest b fs1)
      else done_loop rest b fs)"

definition done_cr :: "ChunkRequest \<Rightarrow> world \<Rightarrow> exn + world" where
  "done_cr cr w = (case done_loop (waiters cr) (buffer cr) (futs w) of
                  Inl e \<Rightarrow> Inl e | Inr fs \<Rightarrow> Inr (w\<lparr>futs := fs\<rparr>))"

text \<open>
  What happens to a request between its creation and the completion signal: chunks arrive
  and callers register, in any order.
\<close>

datatype chunk_op = AddMembers "member list" | GetFuture | Wait

fun chunk_step :: "chunk_op \<Rightarrow> ChunkRequest \<times> world \<Rightarrow> ChunkRequest \<times> world" where
  "chunk_step (AddMembers ms) (cr, w) = (cr, add_members cr ms w)"
| "chunk_step GetFuture (cr, w) = snd (get_future cr w)"
| "chunk_step Wait (cr, w) = snd (wait_register cr w)"

definition chunk_run :: "chunk_op list \<Rightarrow> ChunkRequest \<times> world \<Rightarrow> ChunkRequest \<times> world" where
  "chunk_run ops s = foldl (\<lambda>s opn. chunk_step opn s) s ops"

fun added :: "chunk_op list \<Rightarrow> member list" where
  "added [] = []"
| "added (AddMembers ms # ops) = ms @ added ops"
| "added (_ # ops) = added ops"

fun registrations :: "chunk_op list \<Rightarrow> nat" where
  "registrations [] = 0"
| "registrations (AddMembers ms # ops) = registrations ops"
| "registrations (_ # ops) = Suc (registrations ops)"

text \<open>The invariant of a request while it runs: the buffer object holds \<open>xs\<close>, there are
  \<open>k\<close> waiters, and every one of them is still pending.\<close>

definition chunk_inv :: "member list \<Rightarrow> nat \<Rightarrow> ChunkRequest \<times> world \<Rightarrow> bool" where
  "chunk_inv xs k s = (case s of (cr, w) \<Rightarrow>
     lists w (buffer cr) = Some xs \<and> length (waiters cr) = k \<and>
     (\<forall>f \<in> set (waiters cr). futs w f = Some Pending))"

section \<open>The Client object (client.py)\<close>

subsection \<open>Construction and the credential string\<close>

definition digit_char :: "nat \<Rightarrow> char" where
  "digit_char d = char_of (48 + d)"

function str_nat :: "nat \<Rightarrow> string" where
  "str_nat n = (if n < 10 then [digit_char n] else str_nat (n div 10) @ [digit_char (n mod 10)])"
  by pat_completeness auto
termination
  by (relation "measure id") auto

declare str_nat.simps [simp del]

definition str_int :: "int \<Rightarrow> string" where
  "str_int i = (if i < 0 then CHR ''-'' # str_nat (nat (- i)) else str_nat (nat i))"

text \<open>
  What an f-string puts in for a value. \<^verbatim>\<open>None\<close>, booleans, integers and strings are
  rendered here; the text of any other value (a float, a tuple, an arbitrary object) is left
  to the parameter \<open>other\<close>.
\<close>

fun py_str :: "(pyval \<Rightarrow> string) \<Rightarrow> pyval \<Rightarrow> string" where
  "py_str other PNone = ''None''"
| "py_str other (PBool b) = (if b then ''True'' else ''False'')"
| "py_str other (PInt i) = str_int i"
| "py_str other (PStr s) = s"
| "py_str other v = other v"

text \<open>Line 113: the credential string, and the options left once both parts are popped.\<close>

definition credential :: "(pyval \<Rightarrow> string) \<Rightarrow> options \<Rightarrow> string \<times> options" where
  "credential other options =
     (let (app_id, o1) = opt_pop options ''app_id'' PNone;
          (tok, o2) = opt_pop o1 ''token'' PNone
      in (py_str other app_id @ ''.'' @ py_str other tok, o2))"

text \<open>Lines 126 to 129: the options of the REST transport are popped; their values go to
  the transport's constructor.\<close>

definition pop_http_options :: "options \<Rightarrow> options" where
  "pop_http_options opts =
     (let (connector, o1) = opt_pop opts ''connector'' PNone;
          (proxy, o2) = opt_pop o1 ''proxy'' PNone;
          (proxy_auth, o3) = opt_pop o2 ''proxy_auth'' PNone;
          (unsync_clock, o4) = opt_pop o3 ''assume_unsync_clock'' (PBool True)
      in o4)"

text \<open>Lines 110 to 116: the attributes assigned before the handler tables.\<close>

definition init_client_fields :: "(pyval \<Rightarrow> string) \<Rightarrow> pyval \<Rightarrow> options \<Rightarrow> obj \<Rightarrow> obj \<times> options" where
  "init_client_fields other loop options self =
     (let self1 = self(''ws'' \<mapsto> PNone,
                       ''loop'' \<mapsto> (if loop = PNone then PObj 0 else loop),
                       ''_listeners'' \<mapsto> PDict []);
          (token_v, o2) = credential other options;
          self2 = self1(''token'' \<mapsto> PStr token_v,
                        ''shard_id'' \<mapsto> opt_get o2 ''shard_id'' PNone,
                        ''shard_count'' \<mapsto> opt_get o2 ''shard_count'' PNone);
          (debug, o3) = opt_pop o2 ''enable_debug_events'' (PBool False)
      in (self2(''_enable_debug_events'' \<mapsto> debug), o3))"

text \<open>
  \<^verbatim>\<open>Client.__init__\<close>, on the attribute dictionary of the object under construction. The
  event loop obtained when none is given, the bound methods in the two tables, the REST
  transport and the readiness event are opaque objects. The state manager is built from
  the options that are left; when its constructor raises, so does this one, and the
  attributes \<^verbatim>\<open>_connection\<close>, \<^verbatim>\<open>_closed\<close> and \<^verbatim>\<open>_ready\<close> are never assigned. The third
  component of the result is the state manager, if it was built.
\<close>

definition Client_init ::
  "(pyval \<Rightarrow> string) \<Rightarrow> (string \<times> pyval) list \<Rightarrow> pyval \<Rightarrow> options \<Rightarrow> obj
     \<Rightarrow> exn option \<times> obj \<times> obj option" where
  "Client_init other members loop options self =
     (case init_client_fields other loop options self of (self3, o3) \<Rightarrow>
        (let self4 = self3(''_handlers'' \<mapsto> PDict [(''ready'', PObj 1)],
                           ''_hooks'' \<mapsto> PDict [(''before_identify'', PObj 2)]);
             o7 = pop_http_options o3;
             self5 = self4(''http'' \<mapsto> PObj 3)
         in case ConnectionState_init members (PObj 4) (PDict [(''ready'', PObj 1)])
                   (PDict [(''before_identify'', PObj 2)]) (PObj 3) (the (self5 ''loop'')) o7 Map.empty of
              (Some e, st) \<Rightarrow> (Some e, self5, None)
            | (None, st) \<Rightarrow>
                (None,
                 self5(''_connection'' \<mapsto> PObj 5, ''_closed'' \<mapsto> PBool False, ''_ready'' \<mapsto> PObj 6),
                 Some (st(''shard_count'' \<mapsto> the (self5 ''shard_count''))))))"

subsection \<open>Sockets, transport, handlers, waiters\<close>

text \<open>
  Modelled from the spec: the gateway handler \<^verbatim>\<open>QQWebSocket\<close> and the REST transport
  \<^verbatim>\<open>HTTPClient\<close> are defined in modules outside the source at hand. The specification says
  of the socket that \<^verbatim>\<open>close(code)\<close> "gracefully terminates the socket with the given close
  code" and that liveness "is exposed as a boolean property", and of the transport that
  \<^verbatim>\<open>close()\<close> "releases all held connections". Each object records the close calls it
  received.
\<close>

record socket =
  ws_open :: bool
  sequence :: pyval
  session_id :: pyval
  close_codes :: "int list"

record http_client =
  http_close_calls :: nat

definition socket_close :: "socket \<Rightarrow> int \<Rightarrow> socket" where
  "socket_close s code = s\<lparr>ws_open := False, close_codes := close_codes s @ [code]\<rparr>"

definition http_close :: "http_client \<Rightarrow> http_client" where
  "http_close h = h\<lparr>http_close_calls := Suc (http_close_calls h)\<rparr>"

text \<open>A function object: its \<^verbatim>\<open>__name__\<close>, an identity, and whether
  \<^verbatim>\<open>asyncio.iscoroutinefunction\<close> holds of it.\<close>

datatype callable = CoroFn string nat | PlainFn string nat



text \<open>What an attribute lookup on the client can give: a method of the class, or a function
  bound on the instance by \<^verbatim>\<open>setattr\<close>.\<close>

datatype target = Method string | Handler callable

type_synonym kwargs = "(string \<times> pyval) list"

text \<open>
  What \<^verbatim>\<open>_schedule_event\<close> hands to \<^verbatim>\<open>asyncio.create_task\<close>. \<open>RunEvent\<close> is the task around
  the class's own \<^verbatim>\<open>_run_event(coro, event_name, *args, **kwargs)\<close>, which awaits
  \<^verbatim>\<open>coro(*args, **kwargs)\<close>. \<open>RunShadow h\<close> is the task around the coroutine of a function
  \<open>h\<close> that was bound on the instance under the name \<^verbatim>\<open>_run_event\<close> and is therefore called
  in its place, with the same arguments.
\<close>

datatype task =
    RunEvent target string "pyval list" kwargs
  | RunShadow callable target string "pyval list" kwargs


text \<open>A one-shot waiter: the address of its future and its predicate, which returns a
  value or raises.\<close>

type_synonym waiter = "nat \<times> (pyval list \<Rightarrow> exn + pyval)"

text \<open>
  The client as its methods see it: the attributes \<^verbatim>\<open>ws\<close>, \<^verbatim>\<open>shard_id\<close>, \<^verbatim>\<open>_listeners\<close>,
  \<^verbatim>\<open>http\<close>, \<^verbatim>\<open>_closed\<close> and \<^verbatim>\<open>_ready\<close>, the store of the futures the waiters refer to, the
  functions bound on the instance by \<^verbatim>\<open>setattr\<close> (\<open>attrs\<close>), the tasks created on the event
  loop, and the coroutine objects that were created and never awaited.
\<close>

record client =
  ws :: "socket option"
  shard_id :: pyval
  listeners :: "string \<rightharpoonup> waiter list"
  futures :: "pyval futures"
  attrs :: "string \<rightharpoonup> callable"
  tasks :: "task list"
  unawaited :: "(callable \<times> target \<times> string \<times> pyval list \<times> kwargs) list"
  http :: http_client
  closed_flag :: bool
  ready_flag :: bool

text \<open>
  A client with no socket, no waiter, nothing bound on the instance, not closed and not
  ready: the values that lines 110, 112, 135 and 136 give these attributes. The methods
  below are modelled on any object that has these attributes, whichever way it came to be.
\<close>

definition fresh_client :: client where
  "fresh_client =
     \<lparr>ws = None, shard_id = PNone, listeners = Map.empty, futures = Map.empty,
      attrs = Map.empty, tasks = [], unawaited = [], http = \<lparr>http_close_calls = 0\<rparr>,
      closed_flag = False, ready_flag = False\<rparr>"

text \<open>
  The names defined in the body of \<^verbatim>\<open>class Client\<close>. \<^verbatim>\<open>getattr(self, name)\<close> finds a function
  bound on the instance first, then a member of the class. The data attributes are fields
  of the record; none of their names starts with \<^verbatim>\<open>on_\<close>.
\<close>

definition Client_members :: "string list" where
  "Client_members =
     [''_get_websocket'', ''_get_state'', ''_handle_ready'', ''_call_before_identify_hook'',
      ''before_identify_hook'', ''on_error'', ''_run_event'', ''_schedule_event'', ''dispatch'',
      ''login'', ''latency'', ''is_ready'', ''user'', ''guilds'', ''get_guild'', ''get_user'',
      ''fetch_guild'', ''fetch_guilds'', ''run'', ''start'', ''clear'', ''is_closed'', ''connect'',
      ''close'', ''event'']"

definition getattr :: "client \<Rightarrow> string \<Rightarrow> target option" where
  "getattr c n =
     (case attrs c n of
        Some h \<Rightarrow> Some (Handler h)
      | None \<Rightarrow> if n \<in> set Client_members then Some (Method n) else None)"

definition handle_ready :: "client \<Rightarrow> client" where
  "handle_ready c = c\<lparr>ready_flag := True\<rparr>"

definition is_ready :: "client \<Rightarrow> bool" where
  "is_ready c = ready_flag c"

definition is_closed :: "client \<Rightarrow> bool" where
  "is_closed c = closed_flag c"

subsection \<open>Event registration and dispatch\<close>


text \<open>Truth of a value in \<^verbatim>\<open>if result:\<close>.\<close>

fun py_truth :: "pyval \<Rightarrow> bool" where
  "py_truth PNone = False"
| "py_truth (PBool b) = b"
| "py_truth (PInt i) = (i \<noteq> 0)"
| "py_truth (PFloat (Finite r)) = (r \<noteq> 0)"
| "py_truth (PFloat _) = True"
| "py_truth (PStr s) = (s \<noteq> [])"
| "py_truth (PTuple xs) = (xs \<noteq> [])"
| "py_truth (PDict kvs) = (kvs \<noteq> [])"
| "py_truth (PObj _) = True"

text \<open>Lines 205 to 210: the result a matching waiter is given, by the number of positional
  arguments.\<close>

fun shape_result :: "pyval list \<Rightarrow> pyval" where
  "shape_result [] = PNone"
| "shape_result [a] = a"
| "shape_result args = PTuple args"

text \<open>
  The scan of lines 193 to 211 over the waiters of the event, from index \<open>i\<close> on, with the
  list of indices marked so far. An exception that leaves the loop (a predicate raising
  something that is no \<^verbatim>\<open>Exception\<close>, or a future that is already resolved) ends the scan
  with what has been done up to there.
\<close>

fun scan :: "waiter list \<Rightarrow> nat \<Rightarrow> pyval list \<Rightarrow> nat list \<Rightarrow> pyval futures
               \<Rightarrow> exn option \<times> nat list \<times> pyval futures" where
  "scan [] i args removed fs = (None, removed, fs)"
| "scan ((future, condition) # rest) i args removed fs =
     (if fut_cancelled fs future then scan rest (Suc i) args (removed @ [i]) fs
      else
        (case condition args of
           Inl exc \<Rightarrow>
             if is_Exception exc then
               (case set_exception fs future exc of
                  Inl e \<Rightarrow> (Some e, removed, fs)
                | Inr fs1 \<Rightarrow> scan rest (Suc i) args (removed @ [i]) fs1)
             else (Some exc, removed, fs)
         | Inr result \<Rightarrow>
             if py_truth result then
               (case set_result fs future (shape_result args) of
                  Inl e \<Rightarrow> (Some e, removed, fs)
                | Inr fs1 \<Rightarrow> scan rest (Suc i) args (removed @ [i]) fs1)
             else scan rest (Suc i) args removed fs))"

text \<open>\<^verbatim>\<open>del listeners[idx]\<close> and the loop of lines 216 and 217, which deletes the marked
  indices from the highest to the lowest. The indices come from \<^verbatim>\<open>enumerate\<close>, so each is in
  range when its turn comes.\<close>

definition del_at :: "nat \<Rightarrow> 'a list \<Rightarrow> 'a list" where
  "del_at idx xs = take idx xs @ drop (Suc idx) xs"

definition del_marked :: "nat list \<Rightarrow> 'a list \<Rightarrow> 'a list" where
  "del_marked removed xs = foldl (\<lambda>ys idx. del_at idx ys) xs (rev removed)"

text \<open>Lines 190 to 217.\<close>

definition dispatch_listeners :: "client \<Rightarrow> string \<Rightarrow> pyval list \<Rightarrow> exn option \<times> client" where
  "dispatch_listeners c ev args =
     (case listeners c ev of
        None \<Rightarrow> (None, c)
      | Some ls \<Rightarrow>
          if ls = [] then (None, c)
          else
            (case scan ls 0 args [] (futures c) of
               (Some e, removed, fs) \<Rightarrow> (Some e, c\<lparr>futures := fs\<rparr>)
             | (None, removed, fs) \<Rightarrow>
                 if length removed = length ls
                 then (None, c\<lparr>futures := fs, listeners := (listeners c)(ev := None)\<rparr>)
                 else (None, c\<lparr>futures := fs, listeners := (listeners c)(ev \<mapsto> del_marked removed ls)\<rparr>)))"

text \<open>
  \<^verbatim>\<open>_schedule_event\<close>, reached through \<^verbatim>\<open>self\<close>. A function bound on the instance under the
  name \<^verbatim>\<open>_schedule_event\<close> is called in place of the method: calling a coroutine function
  only creates a coroutine object, which is dropped. Inside the method, \<^verbatim>\<open>self._run_event\<close>
  is looked up the same way, and what it returns is made a task. The functions bound on the
  instance are coroutine functions, as \<^verbatim>\<open>event\<close> binds no other, and an event loop is running.
\<close>

definition schedule_event :: "client \<Rightarrow> target \<Rightarrow> string \<Rightarrow> pyval list \<Rightarrow> kwargs \<Rightarrow> client" where
  "schedule_event c coro event_name args kw =
     (case attrs c ''_schedule_event'' of
        Some h \<Rightarrow> c\<lparr>unawaited := unawaited c @ [(h, coro, event_name, args, kw)]\<rparr>
      | None \<Rightarrow>
          (case attrs c ''_run_event'' of
             Some h \<Rightarrow> c\<lparr>tasks := tasks c @ [RunShadow h coro event_name args kw]\<rparr>
           | None \<Rightarrow> c\<lparr>tasks := tasks c @ [RunEvent coro event_name args kw]\<rparr>))"

text \<open>
  \<^verbatim>\<open>Client.dispatch\<close>. \<^verbatim>\<open>self._listeners\<close> is read first: if a function was bound on the
  instance under that name, \<^verbatim>\<open>.get\<close> on it raises \<^verbatim>\<open>AttributeError\<close>. After the waiters, the
  handler is looked up under \<^verbatim>\<open>'on_' + event\<close> and scheduled if there is one.
\<close>

definition dispatch :: "client \<Rightarrow> string \<Rightarrow> pyval list \<Rightarrow> kwargs \<Rightarrow> exn option \<times> client" where
  "dispatch c ev args kw =
     (let method = ''on_'' @ ev in
      case attrs c ''_listeners'' of
        Some h \<Rightarrow> (Some AttributeError, c)
      | None \<Rightarrow>
          (case dispatch_listeners c ev args of
             (Some e, c1) \<Rightarrow> (Some e, c1)
           | (None, c1) \<Rightarrow>
               (case getattr c1 method of
                  None \<Rightarrow> (None, c1)
                | Some coro \<Rightarrow> (None, schedule_event c1 coro method args kw))))"








subsection \<open>Closing and the reconnect loop\<close>

text \<open>\<^verbatim>\<open>Client.close\<close>.\<close>

definition close :: "client \<Rightarrow> client" where
  "close c =
     (if closed_flag c then c
      else
        (let c1 = c\<lparr>closed_flag := True\<rparr>;
             c2 = (case ws c1 of
                     None \<Rightarrow> c1
                   | Some s \<Rightarrow> if ws_open s then c1\<lparr>ws := Some (socket_close s 1000)\<rparr> else c1);
             c3 = c2\<lparr>http := http_close (http c2)\<rparr>
         in c3\<lparr>ready_flag := False\<rparr>))"

text \<open>
  One pass of the \<^verbatim>\<open>try\<close> block of \<^verbatim>\<open>connect\<close> always ends with an exception, since the poll
  loop has no other exit. What the gateway does in a pass is given from outside: either the
  handshake raises, or it yields a socket, which is stored in \<^verbatim>\<open>self.ws\<close>, and polling goes
  on until it raises; meanwhile a task may have called \<^verbatim>\<open>close\<close> on the client.
\<close>

datatype attempt = HandshakeFails exn | Polls socket bool exn

record ws_params =
  p_initial :: bool
  p_shard_id :: pyval
  p_sequence :: "pyval option"
  p_resume :: "bool option"
  p_session :: "pyval option"

fun attempt_exn :: "attempt \<Rightarrow> exn" where
  "attempt_exn (HandshakeFails e) = e"
| "attempt_exn (Polls s cm e) = e"

fun run_attempt :: "attempt \<Rightarrow> ws_params \<Rightarrow> client \<Rightarrow> client \<times> ws_params" where
  "run_attempt (HandshakeFails e) p c = (c, p)"
| "run_attempt (Polls s cm e) p c =
     ((if cm then close (c\<lparr>ws := Some s\<rparr>) else c\<lparr>ws := Some s\<rparr>), p\<lparr>p_initial := False\<rparr>)"

text \<open>The classes named in the second \<^verbatim>\<open>except\<close> clause.\<close>

fun caught :: "exn \<Rightarrow> bool" where
  "caught (OSError _) = True"
| "caught HTTPException = True"
| "caught GatewayNotFound = True"
| "caught (ConnectionClosed _) = True"
| "caught ClientError = True"
| "caught TimeoutError = True"
| "caught _ = False"

fun reconnect_directive :: "exn \<Rightarrow> bool option" where
  "reconnect_directive (ReconnectWebSocket opn resume) = Some resume"
| "reconnect_directive _ = None"

fun peer_reset :: "exn \<Rightarrow> bool" where
  "peer_reset (OSError errno) = (errno = 54 \<or> errno = 10054)"
| "peer_reset _ = False"

fun bad_closure :: "exn \<Rightarrow> bool" where
  "bad_closure (ConnectionClosed code) = (code \<noteq> 1000)"
| "bad_closure _ = False"

text \<open>What \<^verbatim>\<open>connect\<close> itself does, in order: a connection attempt with its parameters, a
  call of \<^verbatim>\<open>close\<close>, a backoff sleep.\<close>

datatype action = Connect ws_params | CloseCalled | Slept

datatype outcome = Returned | Raised exn

text \<open>\<^verbatim>\<open>ws_params.update(sequence=self.ws.sequence, ..., session=self.ws.session_id)\<close>; with no
  socket the attribute access raises.\<close>

definition resume_params :: "client \<Rightarrow> ws_params \<Rightarrow> bool option \<Rightarrow> bool \<Rightarrow> exn + ws_params" where
  "resume_params c p set_initial resume =
     (case ws c of
        None \<Rightarrow> Inl AttributeError
      | Some s \<Rightarrow>
          Inr (p\<lparr>p_sequence := Some (sequence s),
                  p_initial := (case set_initial of None \<Rightarrow> p_initial p | Some b \<Rightarrow> b),
                  p_resume := Some resume,
                  p_session := Some (session_id s)\<rparr>))"

text \<open>
  The loop of \<^verbatim>\<open>connect\<close> over the passes the gateway allows. The result is \<open>None\<close> when the
  passes are used up and the loop would go on.
\<close>

fun connect_loop :: "bool \<Rightarrow> attempt list \<Rightarrow> ws_params \<Rightarrow> client \<Rightarrow> action list
                       \<Rightarrow> (outcome \<times> client \<times> action list) option" where
  "connect_loop reconnect [] p c tr = (if is_closed c then Some (Returned, c, tr) else None)"
| "connect_loop reconnect (a # rest) p c tr =
     (if is_closed c then Some (Returned, c, tr)
      else
        (let c1 = fst (run_attempt a p c);
             p1 = snd (run_attempt a p c);
             exc = attempt_exn a;
             tr1 = tr @ [Connect p]
         in case reconnect_directive exc of
              Some resume \<Rightarrow>
                (case dispatch c1 ''disconnect'' [] [] of
                   (Some e, c2) \<Rightarrow> Some (Raised e, c2, tr1)
                 | (None, c2) \<Rightarrow>
                     (case resume_params c2 p1 None resume of
                        Inl e \<Rightarrow> Some (Raised e, c2, tr1)
                      | Inr p2 \<Rightarrow> connect_loop reconnect rest p2 c2 tr1))
            | None \<Rightarrow>
                if \<not> caught exc then Some (Raised exc, c1, tr1)
                else
                  (case dispatch c1 ''disconnect'' [] [] of
                     (Some e, c2) \<Rightarrow> Some (Raised e, c2, tr1)
                   | (None, c2) \<Rightarrow>
                       if \<not> reconnect then
                         (if exc = ConnectionClosed 1000
                          then Some (Returned, close c2, tr1 @ [CloseCalled])
                          else Some (Raised exc, close c2, tr1 @ [CloseCalled]))
                       else if is_closed c2 then Some (Returned, c2, tr1)
                       else if peer_reset exc then
                         (case resume_params c2 p1 (Some False) True of
                            Inl e \<Rightarrow> Some (Raised e, c2, tr1)
                          | Inr p2 \<Rightarrow> connect_loop reconnect rest p2 c2 tr1)
                       else if bad_closure exc then
                         Some (Raised exc, close c2, tr1 @ [CloseCalled])
                       else
                         (case resume_params c2 p1 None True of
                            Inl e \<Rightarrow> Some (Raised e, c2, tr1 @ [Slept])
                          | Inr p2 \<Rightarrow> connect_loop reconnect rest p2 c2 (tr1 @ [Slept])))))"

definition connect :: "bool \<Rightarrow> attempt list \<Rightarrow> client \<Rightarrow> (outcome \<times> client \<times> action list) option" where
  "connect reconnect script c =
     connect_loop reconnect script
       \<lparr>p_initial = True, p_shard_id = shard_id c, p_sequence = None, p_resume = None,
        p_session = None\<rparr> c []"

section \<open>Theorems\<close>

subsection \<open>ConnectionState construction\<close>

lemma init_max_messages_ok:
  "mm_ok opts \<Longrightarrow> fst (init_max_messages opts self) = None"
  by (auto simp: mm_ok_def init_max_messages_def opt_get_def Let_def split: option.splits sum.splits bool.splits)

lemma init_max_messages_other:
  "k \<noteq> ''max_messages'' \<Longrightarrow> snd (init_max_messages opts self) k = self k"
  by (auto simp: init_max_messages_def Let_def split: sum.splits bool.splits)

lemma init_max_messages_dom:
  "dom (snd (init_max_messages opts self)) = insert ''max_messages'' (dom self)"
  by (auto simp: init_max_messages_def Let_def split: sum.splits bool.splits if_splits)

lemma init_max_messages_val:
  "snd (init_max_messages opts self) ''max_messages'' =
     (let m = opt_get opts ''max_messages'' (PInt 1000) in
      if m \<noteq> PNone \<and> py_le0 m = Inr True then Some (PInt 1000) else Some m)"
  by (auto simp: init_max_messages_def Let_def split: sum.splits bool.splits)

lemma init_fields_mm: "init_fields d h k opts self ''max_messages'' = self ''max_messages''"
  by (simp add: init_fields_def)

lemma init_tables_mm: "snd (init_tables ms self) ''max_messages'' = self ''max_messages''"
  by (simp add: init_tables_def call_clear_def split: option.splits)

lemma cs_init_mm:
  "snd (ConnectionState_init ms d h k ht loop opts self) ''max_messages'' =
     snd (init_max_messages opts (self(''loop'' \<mapsto> loop, ''http'' \<mapsto> ht))) ''max_messages''"
  by (auto simp: ConnectionState_init_def Let_def init_fields_mm init_tables_mm
      split: prod.splits option.splits sum.splits bool.splits)

text \<open>
  Claim C9. A non-positive integer given as \<^verbatim>\<open>max_messages\<close> is replaced by 1000, an absent
  option gives 1000, and whenever the attribute holds an integer after the constructor
  has run, that integer is positive.
\<close>

theorem max_messages_normalized:
  "(opts ''max_messages'' = Some (PInt n) \<and> n \<le> 0 \<longrightarrow>
      snd (ConnectionState_init ms d h k ht loop opts self) ''max_messages'' = Some (PInt 1000))
   \<and> (opts ''max_messages'' = None \<longrightarrow>
      snd (ConnectionState_init ms d h k ht loop opts self) ''max_messages'' = Some (PInt 1000))
   \<and> (snd (ConnectionState_init ms d h k ht loop opts self) ''max_messages'' = Some (PInt j) \<longrightarrow> 0 < j)"
  unfolding cs_init_mm init_max_messages_val
  by (auto simp: opt_get_def Let_def split: option.splits if_splits)

theorem max_messages_normalized_witness:
  "(Map.empty(''max_messages'' \<mapsto> PInt 0)) ''max_messages'' = Some (PInt 0) \<and> (0::int) \<le> 0
   \<and> snd (ConnectionState_init [] PNone PNone PNone PNone PNone
          (Map.empty(''max_messages'' \<mapsto> PInt 0)) Map.empty) ''max_messages'' = Some (PInt 1000)
   \<and> (0::int) < 1000"
  using max_messages_normalized [of "Map.empty(''max_messages'' \<mapsto> PInt 0)" 0
      "[]" PNone PNone PNone PNone PNone Map.empty 1000]
  by simp

lemma py_ge0_lt0: "py_ge0 v \<Longrightarrow> py_lt0 v = Inr False"
  by (cases v rule: py_lt0.cases) auto

lemma init_fields_dom:
  "dom (init_fields d h k opts self) = dom self \<union>
     {''dispatch'', ''handlers'', ''hooks'', ''shard_count'', ''_ready_task'',
      ''application_id'', ''heartbeat_timeout'', ''guild_ready_timeout''}"
  by (auto simp: init_fields_def)

lemma init_fields_grt:
  "init_fields d h k opts self ''guild_ready_timeout'' =
     Some (opt_get opts ''guild_ready_timeout'' (PFloat (Finite 2)))"
  by (simp add: init_fields_def)

lemma init_fields_other:
  "x \<notin> {''dispatch'', ''handlers'', ''hooks'', ''shard_count'', ''_ready_task'',
      ''application_id'', ''heartbeat_timeout'', ''guild_ready_timeout''} \<Longrightarrow>
   init_fields d h k opts self x = self x"
  by (simp add: init_fields_def)

lemma init_tables_grt:
  "snd (init_tables ms self) ''guild_ready_timeout'' = self ''guild_ready_timeout''"
  by (simp add: init_tables_def call_clear_def split: option.splits)

lemma init_tables_tables:
  "snd (init_tables ms self) ''_chunk_requests'' = Some (PDict [])
   \<and> snd (init_tables ms self) ''parsers'' = Some (PDict (build_parsers ms []))"
  by (simp add: init_tables_def call_clear_def split: option.splits)

lemma init_tables_fst:
  "fst (init_tables ms self) = Some AttributeError \<or> fst (init_tables ms self) = Some TypeError"
  by (simp add: init_tables_def call_clear_def split: option.splits)

lemma cs_init_unfold:
  assumes "mm_ok opts"
  shows "ConnectionState_init ms d h k ht loop opts self =
     (let self3 = init_fields d h k opts
            (snd (init_max_messages opts (self(''loop'' \<mapsto> loop, ''http'' \<mapsto> ht)))) in
      case py_lt0 (opt_get opts ''guild_ready_timeout'' (PFloat (Finite 2))) of
        Inl e \<Rightarrow> (Some e, self3)
      | Inr True \<Rightarrow> (Some (ValueError ''guild_ready_timeout cannot be negative''), self3)
      | Inr False \<Rightarrow> init_tables ms self3)"
  using init_max_messages_ok [OF assms, of "self(''loop'' \<mapsto> loop, ''http'' \<mapsto> ht)"]
  by (cases "init_max_messages opts (self(''loop'' \<mapsto> loop, ''http'' \<mapsto> ht))")
     (simp add: ConnectionState_init_def Let_def init_fields_grt)

text \<open>
  Claim C8, as the code has it. With a negative \<^verbatim>\<open>guild_ready_timeout\<close> the constructor
  raises \<^verbatim>\<open>ValueError\<close>; at that point the attributes of lines 80 to 93 have been assigned
  (the normalised message cap among them) while the chunk-request table and the parser
  table have not been touched. With an absent or non-negative timeout that error is not
  raised: the stored timeout is the value given, or 2.0 when none was given, so it is
  non-negative, and the constructor goes on to set up the chunk-request table and the parser
  table. What the constructor does after these tables is not part of the statement.
\<close>

theorem guild_ready_timeout_checked:
  assumes "mm_ok opts"
  shows "(opts ''guild_ready_timeout'' = Some v \<and> py_lt0 v = Inr True \<longrightarrow>
            fst (ConnectionState_init ms d h k ht loop opts self)
              = Some (ValueError ''guild_ready_timeout cannot be negative'')
          \<and> dom (snd (ConnectionState_init ms d h k ht loop opts self)) = dom self \<union>
               {''loop'', ''http'', ''max_messages'', ''dispatch'', ''handlers'', ''hooks'',
                ''shard_count'', ''_ready_task'', ''application_id'', ''heartbeat_timeout'',
                ''guild_ready_timeout''}
          \<and> snd (ConnectionState_init ms d h k ht loop opts self) ''_chunk_requests''
               = self ''_chunk_requests''
          \<and> snd (ConnectionState_init ms d h k ht loop opts self) ''parsers'' = self ''parsers'')
       \<and> (opts ''guild_ready_timeout'' = None \<longrightarrow>
            fst (ConnectionState_init ms d h k ht loop opts self)
              \<noteq> Some (ValueError ''guild_ready_timeout cannot be negative'')
          \<and> snd (ConnectionState_init ms d h k ht loop opts self) ''guild_ready_timeout''
               = Some (PFloat (Finite 2))
          \<and> py_ge0 (PFloat (Finite 2))
          \<and> snd (ConnectionState_init ms d h k ht loop opts self) ''_chunk_requests'' = Some (PDict [])
          \<and> snd (ConnectionState_init ms d h k ht loop opts self) ''parsers''
               = Some (PDict (build_parsers ms [])))
       \<and> (opts ''guild_ready_timeout'' = Some v \<and> py_ge0 v \<longrightarrow>
            fst (ConnectionState_init ms d h k ht loop opts self)
              \<noteq> Some (ValueError ''guild_ready_timeout cannot be negative'')
          \<and> snd (ConnectionState_init ms d h k ht loop opts self) ''guild_ready_timeout'' = Some v
          \<and> snd (ConnectionState_init ms d h k ht loop opts self) ''_chunk_requests'' = Some (PDict [])
          \<and> snd (ConnectionState_init ms d h k ht loop opts self) ''parsers''
               = Some (PDict (build_parsers ms [])))"
proof (intro conjI impI)
  assume neg: "opts ''guild_ready_timeout'' = Some v \<and> py_lt0 v = Inr True"
  then have eq: "ConnectionState_init ms d h k ht loop opts self =
      (Some (ValueError ''guild_ready_timeout cannot be negative''),
       init_fields d h k opts
         (snd (init_max_messages opts (self(''loop'' \<mapsto> loop, ''http'' \<mapsto> ht)))))"
    by (simp add: cs_init_unfold [OF assms] opt_get_def)
  show "fst (ConnectionState_init ms d h k ht loop opts self)
      = Some (ValueError ''guild_ready_timeout cannot be negative'')"
    by (simp add: eq)
  show "dom (snd (ConnectionState_init ms d h k ht loop opts self)) = dom self \<union>
       {''loop'', ''http'', ''max_messages'', ''dispatch'', ''handlers'', ''hooks'',
        ''shard_count'', ''_ready_task'', ''application_id'', ''heartbeat_timeout'',
        ''guild_ready_timeout''}"
    by (auto simp: eq init_fields_dom init_max_messages_dom)
  show "snd (ConnectionState_init ms d h k ht loop opts self) ''_chunk_requests''
       = self ''_chunk_requests''"
    by (simp add: eq init_fields_other init_max_messages_other)
  show "snd (ConnectionState_init ms d h k ht loop opts self) ''parsers'' = self ''parsers''"
    by (simp add: eq init_fields_other init_max_messages_other)
next
  assume absent: "opts ''guild_ready_timeout'' = None"
  then have eq: "ConnectionState_init ms d h k ht loop opts self =
      init_tables ms (init_fields d h k opts
         (snd (init_max_messages opts (self(''loop'' \<mapsto> loop, ''http'' \<mapsto> ht)))))"
    by (simp add: cs_init_unfold [OF assms] opt_get_def)
  show "fst (ConnectionState_init ms d h k ht loop opts self)
      \<noteq> Some (ValueError ''guild_ready_timeout cannot be negative'')"
    unfolding eq
    using init_tables_fst [of ms "init_fields d h k opts
         (snd (init_max_messages opts (self(''loop'' \<mapsto> loop, ''http'' \<mapsto> ht))))"]
    by auto
  show "snd (ConnectionState_init ms d h k ht loop opts self) ''guild_ready_timeout''
       = Some (PFloat (Finite 2))"
    using absent by (simp add: eq init_tables_grt init_fields_grt opt_get_def)
  show "py_ge0 (PFloat (Finite 2))" by simp
  show "snd (ConnectionState_init ms d h k ht loop opts self) ''_chunk_requests'' = Some (PDict [])"
    by (simp add: eq init_tables_tables)
  show "snd (ConnectionState_init ms d h k ht loop opts self) ''parsers''
       = Some (PDict (build_parsers ms []))"
    by (simp add: eq init_tables_tables)
next
  assume nonneg: "opts ''guild_ready_timeout'' = Some v \<and> py_ge0 v"
  then have eq: "ConnectionState_init ms d h k ht loop opts self =
      init_tables ms (init_fields d h k opts
         (snd (init_max_messages opts (self(''loop'' \<mapsto> loop, ''http'' \<mapsto> ht)))))"
    by (simp add: cs_init_unfold [OF assms] opt_get_def py_ge0_lt0)
  show "fst (ConnectionState_init ms d h k ht loop opts self)
      \<noteq> Some (ValueError ''guild_ready_timeout cannot be negative'')"
    unfolding eq
    using init_tables_fst [of ms "init_fields d h k opts
         (snd (init_max_messages opts (self(''loop'' \<mapsto> loop, ''http'' \<mapsto> ht))))"]
    by auto
  show "snd (ConnectionState_init ms d h k ht loop opts self) ''guild_ready_timeout'' = Some v"
    using nonneg by (simp add: eq init_tables_grt init_fields_grt opt_get_def)
  show "snd (ConnectionState_init ms d h k ht loop opts self) ''_chunk_requests'' = Some (PDict [])"
    by (simp add: eq init_tables_tables)
  show "snd (ConnectionState_init ms d h k ht loop opts self) ''parsers''
       = Some (PDict (build_parsers ms []))"
    by (simp add: eq init_tables_tables)
qed

theorem guild_ready_timeout_checked_witness:
  "mm_ok (Map.empty(''guild_ready_timeout'' \<mapsto> PInt (- 1)))
   \<and> py_lt0 (PInt (- 1)) = Inr True
   \<and> fst (ConnectionState_init [] PNone PNone PNone PNone PNone
          (Map.empty(''guild_ready_timeout'' \<mapsto> PInt (- 1))) Map.empty)
       = Some (ValueError ''guild_ready_timeout cannot be negative'')
   \<and> snd (ConnectionState_init [] PNone PNone PNone PNone PNone
          (Map.empty(''guild_ready_timeout'' \<mapsto> PInt (- 1))) Map.empty) ''parsers'' = None
   \<and> mm_ok Map.empty
   \<and> snd (ConnectionState_init [] PNone PNone PNone PNone PNone Map.empty Map.empty)
         ''guild_ready_timeout'' = Some (PFloat (Finite 2))
   \<and> mm_ok (Map.empty(''guild_ready_timeout'' \<mapsto> PInt 5))
   \<and> py_ge0 (PInt 5)
   \<and> snd (ConnectionState_init [] PNone PNone PNone PNone PNone
          (Map.empty(''guild_ready_timeout'' \<mapsto> PInt 5)) Map.empty)
         ''guild_ready_timeout'' = Some (PInt 5)"
proof -
  have a: "mm_ok (Map.empty(''guild_ready_timeout'' \<mapsto> PInt (- 1)))"
    by (simp add: mm_ok_def)
  have b: "mm_ok Map.empty"
    by (simp add: mm_ok_def)
  have c: "mm_ok (Map.empty(''guild_ready_timeout'' \<mapsto> PInt 5))"
    by (simp add: mm_ok_def)
  show ?thesis
    using a b c
      guild_ready_timeout_checked [OF a, of "PInt (- 1)" "[]" PNone PNone PNone PNone PNone Map.empty]
      guild_ready_timeout_checked [OF b, of "PInt 0" "[]" PNone PNone PNone PNone PNone Map.empty]
      guild_ready_timeout_checked [OF c, of "PInt 5" "[]" PNone PNone PNone PNone PNone Map.empty]
    by simp
qed

text \<open>
  The check is not the first step of the constructor: with a timeout of \<open>-1\<close> on a fresh
  object, the constructor raises \<^verbatim>\<open>ValueError\<close> after it has stored the message cap, so the
  object is not as it was handed in.
\<close>

theorem guild_ready_timeout_not_first_counterexample:
  "fst (ConnectionState_init [] PNone PNone PNone PNone PNone
          (Map.empty(''guild_ready_timeout'' \<mapsto> PInt (- 1))) Map.empty)
     = Some (ValueError ''guild_ready_timeout cannot be negative'')
   \<and> snd (ConnectionState_init [] PNone PNone PNone PNone PNone
          (Map.empty(''guild_ready_timeout'' \<mapsto> PInt (- 1))) Map.empty) ''max_messages''
     = Some (PInt 1000)
   \<and> ConnectionState_init [] PNone PNone PNone PNone PNone
          (Map.empty(''guild_ready_timeout'' \<mapsto> PInt (- 1))) Map.empty
     \<noteq> (Some (ValueError ''guild_ready_timeout cannot be negative''), Map.empty)"
  by (simp add: ConnectionState_init_def init_max_messages_def init_fields_def opt_get_def Let_def)

subsection \<open>ChunkRequest\<close>

lemma done_loop_total:
  "done_loop fl b fs = Inr (\<lambda>f. if f \<in> set fl \<and> fs f = Some Pending then Some (Done b) else fs f)"
proof (induction fl arbitrary: fs)
  case Nil
  then show ?case by simp
next
  case (Cons f rest)
  show ?case
    by (auto simp: Cons.IH fut_done_def set_result_def intro!: ext)
qed

lemma add_members_lists:
  "lists (add_members cr ms w) = (lists w)(buffer cr \<mapsto> (case lists w (buffer cr) of None \<Rightarrow> [] | Some xs \<Rightarrow> xs) @ ms)"
  by (simp add: add_members_def list_extend_def Let_def split: option.splits)

lemma add_members_futs: "futs (add_members cr ms w) = futs w"
  by (simp add: add_members_def list_extend_def Let_def split: option.splits)

lemma chunk_step_inv:
  assumes "chunk_inv xs k (cr, w)" "chunk_step opn (cr, w) = (cr', w')"
  shows "buffer cr' = buffer cr \<and> chunk_inv (xs @ added [opn]) (k + registrations [opn]) (cr', w')"
proof (cases opn)
  case (AddMembers ms)
  with assms show ?thesis
    by (auto simp: chunk_inv_def add_members_lists add_members_futs)
next
  case GetFuture
  with assms show ?thesis
    by (auto simp: chunk_inv_def get_future_def create_future_def Let_def)
next
  case Wait
  with assms show ?thesis
    by (auto simp: chunk_inv_def wait_register_def create_future_def Let_def)
qed

lemma added_append: "added (xs @ ys) = added xs @ added ys"
  by (induction xs rule: added.induct) auto

lemma registrations_append: "registrations (xs @ ys) = registrations xs + registrations ys"
  by (induction xs rule: registrations.induct) auto

lemma chunk_run_inv:
  assumes "chunk_inv xs k (cr, w)" "chunk_run ops (cr, w) = (cr', w')"
  shows "buffer cr' = buffer cr \<and> chunk_inv (xs @ added ops) (k + registrations ops) (cr', w')"
  using assms
proof (induction ops arbitrary: cr' w' rule: rev_induct)
  case Nil
  then show ?case by (simp add: chunk_run_def)
next
  case (snoc opn ops)
  obtain cr1 w1 where mid: "chunk_run ops (cr, w) = (cr1, w1)"
    by (cases "chunk_run ops (cr, w)")
  from snoc.IH [OF snoc.prems(1) mid]
  have b1: "buffer cr1 = buffer cr"
    and i1: "chunk_inv (xs @ added ops) (k + registrations ops) (cr1, w1)" by simp_all
  from snoc.prems(2) mid have st: "chunk_step opn (cr1, w1) = (cr', w')"
    by (simp add: chunk_run_def)
  from chunk_step_inv [OF i1 st] b1 show ?case
    by (simp add: added_append registrations_append add.assoc)
qed

lemma chunk_init_inv: "chunk_inv [] 0 (ChunkRequest_init gid res c rnd w0)"
  by (simp add: chunk_inv_def ChunkRequest_init_def)

text \<open>
  Claim C5. Take a fresh request, let chunks arrive and callers register in any order, and
  signal completion. Then \<^verbatim>\<open>done\<close> succeeds, every registration is in the waiter list, every
  waiter's future holds the same object, the request's buffer, and that buffer holds every
  member added so far in order of arrival, whether it came before or after the waiter
  registered.
\<close>

theorem chunk_waiters_share_buffer:
  assumes "chunk_run ops (ChunkRequest_init gid res c rnd w0) = (cr, w)"
  shows "\<exists>w'. done_cr cr w = Inr w'
           \<and> length (waiters cr) = registrations ops
           \<and> (\<forall>f \<in> set (waiters cr). futs w' f = Some (Done (buffer cr)))
           \<and> lists w' (buffer cr) = Some (added ops)"
proof -
  obtain cr0 w1 where init: "ChunkRequest_init gid res c rnd w0 = (cr0, w1)"
    by (cases "ChunkRequest_init gid res c rnd w0")
  have "chunk_inv [] 0 (cr0, w1)"
    using chunk_init_inv [of gid res c rnd w0] init by simp
  from chunk_run_inv [OF this] assms init
  have inv: "chunk_inv (added ops) (registrations ops) (cr, w)" by simp
  then show ?thesis
    by (auto simp: chunk_inv_def done_cr_def done_loop_total)
qed

theorem chunk_waiters_share_buffer_witness:
  "\<exists>w'. done_cr
          (fst (chunk_run [AddMembers [\<lparr>member_id = 7, joined_at = None\<rparr>], GetFuture, Wait, GetFuture]
             (ChunkRequest_init 42 (\<lambda>_. None) True ''00''
                \<lparr>futs = Map.empty, next_fut = 0, lists = Map.empty, next_list = 0,
                 guild_members = (\<lambda>_. Map.empty)\<rparr>)))
          (snd (chunk_run [AddMembers [\<lparr>member_id = 7, joined_at = None\<rparr>], GetFuture, Wait, GetFuture]
             (ChunkRequest_init 42 (\<lambda>_. None) True ''00''
                \<lparr>futs = Map.empty, next_fut = 0, lists = Map.empty, next_list = 0,
                 guild_members = (\<lambda>_. Map.empty)\<rparr>))) = Inr w'
      \<and> waiters (fst (chunk_run [AddMembers [\<lparr>member_id = 7, joined_at = None\<rparr>], GetFuture, Wait, GetFuture]
             (ChunkRequest_init 42 (\<lambda>_. None) True ''00''
                \<lparr>futs = Map.empty, next_fut = 0, lists = Map.empty, next_list = 0,
                 guild_members = (\<lambda>_. Map.empty)\<rparr>))) = [0, 1, 2]
      \<and> futs w' 0 = Some (Done 0) \<and> futs w' 1 = Some (Done 0) \<and> futs w' 2 = Some (Done 0)
      \<and> lists w' 0 = Some [\<lparr>member_id = 7, joined_at = None\<rparr>]"
proof -
  let ?s = "chunk_run [AddMembers [\<lparr>member_id = 7, joined_at = None\<rparr>], GetFuture, Wait, GetFuture]
             (ChunkRequest_init 42 (\<lambda>_. None) True ''00''
                \<lparr>futs = Map.empty, next_fut = 0, lists = Map.empty, next_list = 0,
                 guild_members = (\<lambda>_. Map.empty)\<rparr>)"
  have ws: "waiters (fst ?s) = [0, 1, 2]" and b: "buffer (fst ?s) = 0"
    by (simp_all add: chunk_run_def ChunkRequest_init_def get_future_def wait_register_def
        create_future_def add_members_def list_extend_def Let_def)
  have "?s = (fst ?s, snd ?s)" by simp
  from chunk_waiters_share_buffer [OF this] ws b show ?thesis
    by auto
qed

subsection \<open>Client construction: the credential string\<close>

lemma credential_fst:
  "fst (credential other options) =
     py_str other (opt_get options ''app_id'' PNone) @ ''.'' @ py_str other (opt_get options ''token'' PNone)"
  by (simp add: credential_def opt_pop_def opt_get_def)

lemma init_client_fields_token:
  "fst (init_client_fields other loop options self) ''token'' = Some (PStr (fst (credential other options)))"
  by (simp add: init_client_fields_def Let_def split: prod.splits)

lemma Client_init_token:
  "fst (snd (Client_init other ms loop options self)) ''token'' =
     fst (init_client_fields other loop options self) ''token''"
  by (simp add: Client_init_def Let_def split: prod.splits option.splits)

lemma str_int_42: "str_int 42 = ''42''"
  by code_simp

text \<open>
  Claim C7. Whatever options are given, and however far the constructor gets afterwards,
  the \<^verbatim>\<open>token\<close> attribute is the rendering of the \<^verbatim>\<open>app_id\<close> option, a dot, and the
  rendering of the \<^verbatim>\<open>token\<close> option, where a part that was not supplied is rendered as the
  text \<^verbatim>\<open>None\<close>.
\<close>

theorem client_token_composed:
  "fst (snd (Client_init other ms loop options self)) ''token'' =
     Some (PStr (py_str other (opt_get options ''app_id'' PNone) @ ''.''
                 @ py_str other (opt_get options ''token'' PNone)))
   \<and> (options ''app_id'' = None \<and> options ''token'' = None \<longrightarrow>
        fst (snd (Client_init other ms loop options self)) ''token'' = Some (PStr ''None.None''))
   \<and> (options ''app_id'' = None \<and> options ''token'' = Some t \<longrightarrow>
        fst (snd (Client_init other ms loop options self)) ''token''
          = Some (PStr (''None.'' @ py_str other t)))
   \<and> (options ''app_id'' = Some a \<and> options ''token'' = None \<longrightarrow>
        fst (snd (Client_init other ms loop options self)) ''token''
          = Some (PStr (py_str other a @ ''.None'')))
   \<and> (options ''app_id'' = Some a \<and> options ''token'' = Some t \<longrightarrow>
        fst (snd (Client_init other ms loop options self)) ''token''
          = Some (PStr (py_str other a @ ''.'' @ py_str other t)))"
  by (simp add: Client_init_token init_client_fields_token credential_fst opt_get_def)

theorem client_token_composed_witness:
  "fst (snd (Client_init (\<lambda>_. []) [] PNone (Map.empty(''app_id'' \<mapsto> PInt 42)) Map.empty)) ''token''
     = Some (PStr ''42.None'')
   \<and> fst (snd (Client_init (\<lambda>_. []) [] PNone Map.empty Map.empty)) ''token'' = Some (PStr ''None.None'')
   \<and> fst (snd (Client_init (\<lambda>_. []) [] PNone
         (Map.empty(''app_id'' \<mapsto> PInt 42, ''token'' \<mapsto> PStr ''abc'')) Map.empty)) ''token''
     = Some (PStr ''42.abc'')
   \<and> fst (snd (Client_init (\<lambda>_. []) [] PNone (Map.empty(''token'' \<mapsto> PStr ''abc'')) Map.empty)) ''token''
     = Some (PStr ''None.abc'')"
  using client_token_composed [of "\<lambda>_. []" "[]" PNone "Map.empty(''app_id'' \<mapsto> PInt 42)" Map.empty
          "PStr ''abc''" "PInt 42"]
        client_token_composed [of "\<lambda>_. []" "[]" PNone Map.empty Map.empty "PStr ''abc''" "PInt 42"]
        client_token_composed [of "\<lambda>_. []" "[]" PNone
          "Map.empty(''app_id'' \<mapsto> PInt 42, ''token'' \<mapsto> PStr ''abc'')" Map.empty "PStr ''abc''" "PInt 42"]
        client_token_composed [of "\<lambda>_. []" "[]" PNone "Map.empty(''token'' \<mapsto> PStr ''abc'')" Map.empty
          "PStr ''abc''" "PInt 42"]
  by (simp add: str_int_42 opt_get_def)

subsection \<open>Closing\<close>

lemma close_closed: "closed_flag c \<Longrightarrow> close c = c"
  by (simp add: close_def)

lemma close_sets_closed: "closed_flag (close c)"
  by (simp add: close_def Let_def split: option.splits)

lemma close_idem: "close (close c) = close c"
  by (rule close_closed) (rule close_sets_closed)

lemma close_funpow: "(close ^^ Suc n) c = close c"
  by (induction n) (simp_all add: close_idem)

lemma close_ready: "\<not> closed_flag c \<Longrightarrow> \<not> ready_flag (close c)"
  by (simp add: close_def Let_def split: option.splits)

lemma close_http:
  "http_close_calls (http (close c)) =
     (if closed_flag c then http_close_calls (http c) else Suc (http_close_calls (http c)))"
  by (simp add: close_def Let_def http_close_def split: option.splits)

lemma close_ws_none: "ws c = None \<Longrightarrow> ws (close c) = None"
  by (simp add: close_def Let_def)

lemma close_ws_some:
  "ws c = Some s \<Longrightarrow>
   \<exists>s'. ws (close c) = Some s' \<and>
        close_codes s' = close_codes s @ (if \<not> closed_flag c \<and> ws_open s then [1000] else [])"
  by (simp add: close_def Let_def socket_close_def)

text \<open>
  Claim C6, as the code has it. On a closed client \<^verbatim>\<open>close\<close> changes nothing; a second call
  and any number of further calls leave the client as the first call left it, so the
  transport is closed once and an open socket is closed once, with code 1000. After any
  call the client is closed. The readiness signal is cleared by a call that finds the
  client not yet closed.
\<close>

theorem close_idempotent:
  "(closed_flag c \<longrightarrow> close c = c)
   \<and> close (close c) = close c
   \<and> (close ^^ Suc n) c = close c
   \<and> is_closed (close c)
   \<and> (\<not> closed_flag c \<longrightarrow> \<not> is_ready (close c))
   \<and> http_close_calls (http (close c)) =
        (if closed_flag c then http_close_calls (http c) else Suc (http_close_calls (http c)))
   \<and> (ws c = None \<longrightarrow> ws (close c) = None)
   \<and> (ws c = Some s \<longrightarrow>
        (\<exists>s'. ws (close c) = Some s' \<and>
           close_codes s' = close_codes s @ (if \<not> closed_flag c \<and> ws_open s then [1000] else [])))"
  using close_closed [of c] close_idem [of c] close_funpow [of n c] close_sets_closed [of c]
    close_ready [of c] close_http [of c] close_ws_none [of c] close_ws_some [of c s]
  by (simp add: is_closed_def is_ready_def)

theorem close_idempotent_witness:
  "\<not> closed_flag (fresh_client\<lparr>ws := Some \<lparr>ws_open = True, sequence = PNone, session_id = PNone, close_codes = []\<rparr>,
                              ready_flag := True\<rparr>)
   \<and> is_closed (close (fresh_client\<lparr>ws := Some \<lparr>ws_open = True, sequence = PNone, session_id = PNone, close_codes = []\<rparr>,
                              ready_flag := True\<rparr>))
   \<and> \<not> is_ready (close (fresh_client\<lparr>ws := Some \<lparr>ws_open = True, sequence = PNone, session_id = PNone, close_codes = []\<rparr>,
                              ready_flag := True\<rparr>))
   \<and> http_close_calls (http ((close ^^ 2) (fresh_client\<lparr>ws := Some \<lparr>ws_open = True, sequence = PNone, session_id = PNone, close_codes = []\<rparr>,
                              ready_flag := True\<rparr>))) = 1"
  using close_idempotent [of "fresh_client\<lparr>ws := Some \<lparr>ws_open = True, sequence = PNone, session_id = PNone, close_codes = []\<rparr>,
                              ready_flag := True\<rparr>" 1 "\<lparr>ws_open = True, sequence = PNone, session_id = PNone, close_codes = []\<rparr>"]
  by (simp add: fresh_client_def numeral_2_eq_2)

text \<open>
  A call on a client that is already closed returns on line 470 and does not touch the
  readiness signal: when the \<^verbatim>\<open>ready\<close> handler runs after a first \<^verbatim>\<open>close\<close>, a second \<^verbatim>\<open>close\<close>
  succeeds and leaves the signal set.
\<close>

theorem close_keeps_readiness_counterexample:
  "is_closed (close (handle_ready (close fresh_client)))
   \<and> is_ready (close (handle_ready (close fresh_client)))"
  by (simp add: close_def handle_ready_def fresh_client_def is_closed_def is_ready_def Let_def)

subsection \<open>The reconnect loop\<close>

lemma dispatch_listeners_closed_flag:
  "closed_flag (snd (dispatch_listeners c ev args)) = closed_flag c"
  by (simp add: dispatch_listeners_def split: option.splits prod.splits)

lemma schedule_event_closed_flag:
  "closed_flag (schedule_event c coro nm args kw) = closed_flag c"
  by (simp add: schedule_event_def split: option.splits)

lemma dispatch_closed_flag: "closed_flag (snd (dispatch c ev args kw)) = closed_flag c"
proof -
  obtain r c1 where dl: "dispatch_listeners c ev args = (r, c1)"
    by (cases "dispatch_listeners c ev args")
  have "closed_flag c1 = closed_flag c"
    using dispatch_listeners_closed_flag [of c ev args] dl by simp
  then show ?thesis
    by (cases r) (simp_all add: dispatch_def Let_def dl schedule_event_closed_flag split: option.splits)
qed

lemma dispatch_disconnect_quiet:
  assumes "attrs c = Map.empty" "listeners c = Map.empty"
  shows "dispatch c ''disconnect'' [] [] = (None, c)"
  using assms
  by (simp add: dispatch_def dispatch_listeners_def getattr_def Client_members_def)

lemma run_attempt_closed:
  "\<not> closed_flag c \<Longrightarrow> closed_flag (fst (run_attempt (Polls s cm e) p c)) = cm"
  by (simp add: close_def Let_def)

text \<open>
  Claim C2. With reconnection disabled, when a pass of the loop ends with
  \<^verbatim>\<open>ConnectionClosed\<close> and the \<^verbatim>\<open>disconnect\<close> event has been dispatched, \<^verbatim>\<open>connect\<close> calls
  \<^verbatim>\<open>close\<close> once and then returns normally if the close code is 1000 and re-raises the
  failure otherwise; the client is closed, no further pass is made and nothing is slept.
\<close>

theorem connect_without_reconnect:
  assumes "\<not> is_closed c"
    and "attempt_exn a = ConnectionClosed code"
    and "dispatch (fst (run_attempt a p c)) ''disconnect'' [] [] = (None, cd)"
  shows "connect_loop False (a # rest) p c tr =
           Some ((if code = 1000 then Returned else Raised (ConnectionClosed code)),
                 close cd, tr @ [Connect p, CloseCalled])
         \<and> is_closed (close cd)
         \<and> count_list (tr @ [Connect p, CloseCalled]) CloseCalled = Suc (count_list tr CloseCalled)"
  using assms
  by (simp add: Let_def is_closed_def close_def split: option.splits)

text \<open>
  Claim C3, as the code has it. With reconnection requested, when polling ends with
  \<^verbatim>\<open>ConnectionClosed\<close> and a code other than 1000, \<^verbatim>\<open>connect\<close> never takes the backoff path
  and makes no further pass. If the client is still open it calls \<^verbatim>\<open>close\<close> and re-raises the
  failure; if the client was closed while the pass was running, the check on line 440 comes
  first and \<^verbatim>\<open>connect\<close> returns normally.
\<close>

theorem connect_bad_closure_fatal:
  assumes "\<not> is_closed c"
    and "code \<noteq> 1000"
    and "dispatch (fst (run_attempt (Polls s cm (ConnectionClosed code)) p c)) ''disconnect'' [] []
           = (None, cd)"
  shows "connect_loop True (Polls s cm (ConnectionClosed code) # rest) p c tr =
           (if cm then Some (Returned, cd, tr @ [Connect p])
            else Some (Raised (ConnectionClosed code), close cd, tr @ [Connect p, CloseCalled]))"
proof -
  have "closed_flag cd = closed_flag (fst (run_attempt (Polls s cm (ConnectionClosed code)) p c))"
    using dispatch_closed_flag
      [of "fst (run_attempt (Polls s cm (ConnectionClosed code)) p c)" "''disconnect''" "[]" "[]"]
      assms(3)
    by simp
  also have "\<dots> = cm"
    using assms(1) run_attempt_closed [of c s cm "ConnectionClosed code" p]
    unfolding is_closed_def by blast
  finally have cm: "closed_flag cd = cm" .
  show ?thesis
    using assms cm by (simp add: Let_def is_closed_def)
qed


lemma fresh_not_closed: "\<not> is_closed fresh_client"
  by (simp add: is_closed_def fresh_client_def)

lemma fresh_polls_dispatch:
  "dispatch (fst (run_attempt (Polls s False e) p fresh_client)) ''disconnect'' [] []
     = (None, fresh_client\<lparr>ws := Some s\<rparr>)"
  by (simp add: dispatch_disconnect_quiet fresh_client_def)

theorem connect_without_reconnect_witness:
  "connect_loop False [Polls \<lparr>ws_open = True, sequence = PInt 7, session_id = PStr ''s'', close_codes = []\<rparr> False (ConnectionClosed 1000)]
       \<lparr>p_initial = True, p_shard_id = PNone, p_sequence = None, p_resume = None, p_session = None\<rparr> fresh_client []
     = Some (Returned, close (fresh_client\<lparr>ws := Some \<lparr>ws_open = True, sequence = PInt 7, session_id = PStr ''s'', close_codes = []\<rparr>\<rparr>),
             [Connect \<lparr>p_initial = True, p_shard_id = PNone, p_sequence = None, p_resume = None, p_session = None\<rparr>, CloseCalled])
   \<and> connect_loop False [Polls \<lparr>ws_open = True, sequence = PInt 7, session_id = PStr ''s'', close_codes = []\<rparr> False (ConnectionClosed 4010)]
       \<lparr>p_initial = True, p_shard_id = PNone, p_sequence = None, p_resume = None, p_session = None\<rparr> fresh_client []
     = Some (Raised (ConnectionClosed 4010), close (fresh_client\<lparr>ws := Some \<lparr>ws_open = True, sequence = PInt 7, session_id = PStr ''s'', close_codes = []\<rparr>\<rparr>),
             [Connect \<lparr>p_initial = True, p_shard_id = PNone, p_sequence = None, p_resume = None, p_session = None\<rparr>, CloseCalled])"
  using connect_without_reconnect [where c = fresh_client and a = "Polls \<lparr>ws_open = True, sequence = PInt 7, session_id = PStr ''s'', close_codes = []\<rparr> False (ConnectionClosed 1000)" and code = 1000
            and p = "\<lparr>p_initial = True, p_shard_id = PNone, p_sequence = None, p_resume = None, p_session = None\<rparr>"
            and cd = "fresh_client\<lparr>ws := Some \<lparr>ws_open = True, sequence = PInt 7, session_id = PStr ''s'', close_codes = []\<rparr>\<rparr>" and rest = "[]" and tr = "[]"]
        connect_without_reconnect [where c = fresh_client and a = "Polls \<lparr>ws_open = True, sequence = PInt 7, session_id = PStr ''s'', close_codes = []\<rparr> False (ConnectionClosed 4010)" and code = 4010
            and p = "\<lparr>p_initial = True, p_shard_id = PNone, p_sequence = None, p_resume = None, p_session = None\<rparr>"
            and cd = "fresh_client\<lparr>ws := Some \<lparr>ws_open = True, sequence = PInt 7, session_id = PStr ''s'', close_codes = []\<rparr>\<rparr>" and rest = "[]" and tr = "[]"]
        fresh_not_closed fresh_polls_dispatch
  by simp

theorem connect_bad_closure_fatal_witness:
  "connect_loop True [Polls \<lparr>ws_open = True, sequence = PInt 7, session_id = PStr ''s'', close_codes = []\<rparr> False (ConnectionClosed 4010)]
       \<lparr>p_initial = True, p_shard_id = PNone, p_sequence = None, p_resume = None, p_session = None\<rparr> fresh_client []
     = Some (Raised (ConnectionClosed 4010), close (fresh_client\<lparr>ws := Some \<lparr>ws_open = True, sequence = PInt 7, session_id = PStr ''s'', close_codes = []\<rparr>\<rparr>),
             [Connect \<lparr>p_initial = True, p_shard_id = PNone, p_sequence = None, p_resume = None, p_session = None\<rparr>, CloseCalled])"
  using connect_bad_closure_fatal
          [where c = fresh_client and s = "\<lparr>ws_open = True, sequence = PInt 7, session_id = PStr ''s'', close_codes = []\<rparr>" and cm = False and code = 4010
            and p = "\<lparr>p_initial = True, p_shard_id = PNone, p_sequence = None, p_resume = None, p_session = None\<rparr>"
            and cd = "fresh_client\<lparr>ws := Some \<lparr>ws_open = True, sequence = PInt 7, session_id = PStr ''s'', close_codes = []\<rparr>\<rparr>" and rest = "[]" and tr = "[]"]
        fresh_not_closed fresh_polls_dispatch
  by simp

text \<open>
  A closure with code 4010 on a client that a task closed while the pass was running:
  \<^verbatim>\<open>connect\<close> returns normally, without a further call of \<^verbatim>\<open>close\<close> and without re-raising.
\<close>

theorem connect_bad_closure_closed_counterexample:
  "connect True [Polls \<lparr>ws_open = True, sequence = PInt 7, session_id = PStr ''s'', close_codes = []\<rparr> True (ConnectionClosed 4010)] fresh_client
     = Some (Returned, close (fresh_client\<lparr>ws := Some \<lparr>ws_open = True, sequence = PInt 7, session_id = PStr ''s'', close_codes = []\<rparr>\<rparr>),
             [Connect \<lparr>p_initial = True, p_shard_id = PNone, p_sequence = None, p_resume = None, p_session = None\<rparr>])"
proof -
  have d: "dispatch (close (fresh_client\<lparr>ws := Some \<lparr>ws_open = True, sequence = PInt 7, session_id = PStr ''s'', close_codes = []\<rparr>\<rparr>)) ''disconnect'' [] []
             = (None, close (fresh_client\<lparr>ws := Some \<lparr>ws_open = True, sequence = PInt 7, session_id = PStr ''s'', close_codes = []\<rparr>\<rparr>))"
    by (rule dispatch_disconnect_quiet) (simp_all add: close_def fresh_client_def Let_def)
  have c: "closed_flag (close (fresh_client\<lparr>ws := Some \<lparr>ws_open = True, sequence = PInt 7, session_id = PStr ''s'', close_codes = []\<rparr>\<rparr>))"
    by (simp add: close_def Let_def)
  have s: "shard_id fresh_client = PNone" "\<not> closed_flag fresh_client"
    by (simp_all add: fresh_client_def)
  show ?thesis
    by (simp add: connect_def Let_def is_closed_def d c s)
qed

subsection \<open>Dispatch: the waiters\<close>


























subsection \<open>Registration and the handlers dispatch schedules\<close>



lemma startswith_on: "startswith (''on_'' @ ev) ''on_''"
  by (simp add: startswith_def)













subsection \<open>When dispatch runs to its end\<close>

text \<open>
  The scan raises nothing when every waiter has a future of its own that is pending or
  cancelled and no predicate raises anything but an \<^verbatim>\<open>Exception\<close>.
\<close>

lemma scan_completes:
  assumes "distinct (map fst ls)"
    and "\<forall>w \<in> set ls. fs (fst w) = Some Pending \<or> fs (fst w) = Some Cancelled"
    and "\<forall>w \<in> set ls. \<forall>e. snd w args = Inl e \<longrightarrow> is_Exception e"
  shows "fst (scan ls i args removed fs) = None"
  using assms
proof (induction ls arbitrary: i removed fs)
  case Nil
  then show ?case by simp
next
  case (Cons w rest)
  obtain f cond where w: "w = (f, cond)" by (cases w)
  from Cons.prems(1) have d: "distinct (map fst rest)" and nf: "f \<notin> fst ` set rest"
    by (simp_all add: w)
  from Cons.prems(3) have ex: "\<forall>w \<in> set rest. \<forall>e. snd w args = Inl e \<longrightarrow> is_Exception e"
    by simp
  have upd: "\<forall>w \<in> set rest. (fs(f \<mapsto> x)) (fst w) = Some Pending \<or> (fs(f \<mapsto> x)) (fst w) = Some Cancelled"
    for x
    using Cons.prems(2) nf by auto
  have same: "\<forall>w \<in> set rest. fs (fst w) = Some Pending \<or> fs (fst w) = Some Cancelled"
    using Cons.prems(2) by simp
  show ?case
  proof (cases "fut_cancelled fs f")
    case True
    with Cons.IH [OF d same ex] show ?thesis by (simp add: w)
  next
    case False
    with Cons.prems(2) have pend: "fs f = Some Pending"
      by (simp add: w fut_cancelled_def)
    show ?thesis
    proof (cases "cond args")
      case (Inl e)
      with Cons.prems(3) have "is_Exception e" by (simp add: w)
      moreover have "fst (scan rest (Suc i) args (removed @ [i]) (fs(f \<mapsto> Failed e))) = None"
        by (rule Cons.IH [OF d upd ex])
      ultimately show ?thesis
        using False Inl pend by (simp add: w set_exception_def)
    next
      case (Inr v)
      have "fst (scan rest (Suc i) args (removed @ [i]) (fs(f \<mapsto> Done (shape_result args)))) = None"
        by (rule Cons.IH [OF d upd ex])
      moreover have "fst (scan rest (Suc i) args removed fs) = None"
        by (rule Cons.IH [OF d same ex])
      ultimately show ?thesis
        using False Inr pend by (simp add: w set_result_def)
    qed
  qed
qed

lemma dispatch_completes:
  assumes "attrs c ''_listeners'' = None"
    and "listeners c ev = Some ls"
    and "distinct (map fst ls)"
    and "\<forall>w \<in> set ls. futures c (fst w) = Some Pending \<or> futures c (fst w) = Some Cancelled"
    and "\<forall>w \<in> set ls. \<forall>e. snd w args = Inl e \<longrightarrow> is_Exception e"
  shows "fst (dispatch c ev args kw) = None"
proof -
  obtain r rm fs where sc: "scan ls 0 args [] (futures c) = (r, rm, fs)"
    by (cases "scan ls 0 args [] (futures c)")
  with scan_completes [OF assms(3-5), of 0 "[]"] have r: "r = None" by simp
  have "fst (dispatch_listeners c ev args) = None"
    using assms(2) sc r by (simp add: dispatch_listeners_def)
  then obtain c1 where "dispatch_listeners c ev args = (None, c1)"
    by (cases "dispatch_listeners c ev args") simp
  with assms(1) show ?thesis
    by (simp add: dispatch_def Let_def split: option.splits)
qed

end
